theory Spec2Isabelle
  imports Main
begin

section \<open>Strings\<close>

text \<open>
  A JavaScript string is a sequence of UTF-16 code units. A code unit is a number from 0
  to 65535, given here as an integer; \<open>str\<close> gives the code units of a literal made of
  ASCII characters, \<open>cu\<close> the code unit of one such character.
\<close>

type_synonym jstring = "int list"

abbreviation cu :: "char \<Rightarrow> int" where
  "cu \<equiv> of_char"

definition str :: "string \<Rightarrow> jstring" where
  "str s = map cu s"

text \<open>
  White space as \<open>trim\<close> and the class \<open>\s\<close> of a regular expression take it: tab, line
  feed, vertical tab, form feed, carriage return, space, U+00A0, U+1680, U+2000 to U+200A,
  U+2028, U+2029, U+202F, U+205F, U+3000 and U+FEFF.
\<close>

definition is_ws :: "int \<Rightarrow> bool" where
  "is_ws c = (c = 0x09 \<or> c = 0x0A \<or> c = 0x0B \<or> c = 0x0C \<or> c = 0x0D \<or> c = 0x20 \<or> c = 0xA0
              \<or> c = 0x1680 \<or> (0x2000 \<le> c \<and> c \<le> 0x200A) \<or> c = 0x2028 \<or> c = 0x2029
              \<or> c = 0x202F \<or> c = 0x205F \<or> c = 0x3000 \<or> c = 0xFEFF)"

definition trimStart :: "jstring \<Rightarrow> jstring" where
  "trimStart s = dropWhile is_ws s"

definition trimEnd :: "jstring \<Rightarrow> jstring" where
  "trimEnd s = rev (dropWhile is_ws (rev s))"

definition trim :: "jstring \<Rightarrow> jstring" where
  "trim s = trimEnd (trimStart s)"

text \<open>\<open>s.split('\n')\<close>: always at least one piece.\<close>

fun split_nl :: "jstring \<Rightarrow> jstring list" where
  "split_nl [] = [[]]"
| "split_nl (c # cs) =
     (if c = 0x0A then [] # split_nl cs
      else (case split_nl cs of [] \<Rightarrow> [[c]] | l # ls \<Rightarrow> (c # l) # ls))"

text \<open>\<open>xs.join(sep)\<close>.\<close>

fun join :: "jstring \<Rightarrow> jstring list \<Rightarrow> jstring" where
  "join sep [] = []"
| "join sep [x] = x"
| "join sep (x # y # zs) = x @ sep @ join sep (y # zs)"

text \<open>Decimal rendering of a number in a template literal.\<close>

definition digit_char :: "nat \<Rightarrow> int" where
  "digit_char d = cu CHR ''0'' + int d"

fun nat_to_string :: "nat \<Rightarrow> jstring" where
  "nat_to_string n =
     (if n < 10 then [digit_char n] else nat_to_string (n div 10) @ [digit_char (n mod 10)])"

definition int_to_string :: "int \<Rightarrow> jstring" where
  "int_to_string i = (if i < 0 then cu CHR ''-'' # nat_to_string (nat (- i)) else nat_to_string (nat i))"

section \<open>The document tree\<close>

text \<open>
  A mark has a type name and, for a link, the attribute \<open>href\<close>. A node is a text leaf
  with its marks or a typed node with attributes and children. An attribute the node does
  not have reads as \<open>undefined\<close> in the program; the accessors below give what the
  serializer makes of that. The names of node and mark types are identifiers of the
  program, not text of a document.
\<close>

datatype mark = Mark (mark_type: string) (mark_href: jstring)

datatype attrs =
    NoAttrs
  | HeadingAttrs nat
  | CodeBlockAttrs "jstring option"
  | OrderedListAttrs int
  | TaskItemAttrs bool

datatype node =
    Node (node_type: string) (node_attrs: attrs) (node_content: "node list")
  | Text (node_text: jstring) (node_marks: "mark list")

text \<open>\<open>'#'.repeat(node.attrs.level)\<close>; \<open>repeat(undefined)\<close> is the empty string.\<close>

fun attr_level :: "attrs \<Rightarrow> nat" where
  "attr_level (HeadingAttrs n) = n"
| "attr_level _ = 0"

text \<open>\<open>language ? language : ''\<close>.\<close>

fun attr_langPrefix :: "attrs \<Rightarrow> jstring" where
  "attr_langPrefix (CodeBlockAttrs (Some l)) = l"
| "attr_langPrefix _ = []"

text \<open>\<open>node.attrs.order || 1\<close>: zero and \<open>undefined\<close> are falsy.\<close>

fun attr_order_or_1 :: "attrs \<Rightarrow> int" where
  "attr_order_or_1 (OrderedListAttrs n) = (if n = 0 then 1 else n)"
| "attr_order_or_1 _ = 1"

fun attr_checked :: "attrs \<Rightarrow> bool" where
  "attr_checked (TaskItemAttrs b) = b"
| "attr_checked _ = False"

section \<open>The serializer\<close>

subsection \<open>Inline text\<close>

text \<open>The \<open>switch\<close> inside \<open>otherMarks.forEach\<close>: a mark type without a case changes nothing.\<close>

definition applyMark :: "jstring \<Rightarrow> mark \<Rightarrow> jstring" where
  "applyMark childText m =
     (if mark_type m = ''strong'' then str ''**'' @ childText @ str ''**''
      else if mark_type m = ''em'' then str ''*'' @ childText @ str ''*''
      else if mark_type m = ''code'' then str ''`'' @ childText @ str ''`''
      else childText)"

definition textToMarkdown :: "jstring \<Rightarrow> mark list \<Rightarrow> jstring" where
  "textToMarkdown t ms =
     (let linkMark = find (\<lambda>m. mark_type m = ''link'') ms;
          otherMarks = filter (\<lambda>m. mark_type m \<noteq> ''link'') ms;
          childText = foldl applyMark t otherMarks
      in case linkMark of
           Some l \<Rightarrow> str ''['' @ childText @ str '']('' @ mark_href l @ str '')''
         | None \<Rightarrow> childText)"

fun nodeToText :: "node \<Rightarrow> jstring"
and childrenToText :: "node list \<Rightarrow> jstring" where
  "nodeToText (Text t ms) = []"
| "nodeToText (Node ty a cs) = childrenToText cs"
| "childrenToText [] = []"
| "childrenToText (child # rest) =
     (case child of
        Text t ms \<Rightarrow> textToMarkdown t ms
      | Node ty a cs \<Rightarrow> nodeToText child) @ childrenToText rest"

text \<open>\<open>node.textContent\<close>: the text of all leaves below the node, marks ignored.\<close>

fun textContent :: "node \<Rightarrow> jstring"
and textContents :: "node list \<Rightarrow> jstring" where
  "textContent (Text t ms) = t"
| "textContent (Node ty a cs) = textContents cs"
| "textContents [] = []"
| "textContents (child # rest) = textContent child @ textContents rest"

subsection \<open>Lists\<close>

text \<open>\<open>startNum || 1\<close>, for the optional third parameter.\<close>

fun start_or_1 :: "int option \<Rightarrow> int" where
  "start_or_1 None = 1"
| "start_or_1 (Some n) = (if n = 0 then 1 else n)"

definition indentLines :: "jstring \<Rightarrow> jstring" where
  "indentLines nestedList = join [0x0A] (map (\<lambda>line. str ''  '' @ line) (split_nl nestedList))"

definition currentMarker :: "jstring \<Rightarrow> int \<Rightarrow> jstring" where
  "currentMarker marker currentNum =
     (if marker = str ''1.'' then int_to_string currentNum @ str ''.'' else marker)"

fun serializeList :: "node \<Rightarrow> jstring \<Rightarrow> int option \<Rightarrow> jstring"
and listItems :: "node list \<Rightarrow> jstring \<Rightarrow> int \<Rightarrow> jstring"
and itemText :: "node list \<Rightarrow> jstring" where
  "serializeList (Text t ms) marker startNum = []"
| "serializeList (Node ty a items) marker startNum =
     trimEnd (listItems items marker (start_or_1 startNum))"
| "listItems [] marker currentNum = []"
| "listItems (listItem # rest) marker currentNum =
     (case listItem of
        Text t ms \<Rightarrow> listItems rest marker currentNum
      | Node ty a cs \<Rightarrow>
          if ty = ''list_item'' then
            (if trim (itemText cs) \<noteq> [] then
               currentMarker marker currentNum @ str '' '' @ trim (itemText cs) @ [0x0A]
                 @ listItems rest marker (if marker = str ''1.'' then currentNum + 1 else currentNum)
             else listItems rest marker currentNum)
          else listItems rest marker currentNum)"
| "itemText [] = []"
| "itemText (itemChild # rest) =
     (case itemChild of
        Text t ms \<Rightarrow> itemText rest
      | Node ty a cs \<Rightarrow>
          if ty = ''paragraph'' then nodeToText itemChild @ itemText rest
          else if ty = ''bullet_list'' \<or> ty = ''ordered_list'' then
            ([0x0A] @ indentLines
               (serializeList itemChild (if ty = ''bullet_list'' then str ''-'' else str ''1.'') None))
              @ itemText rest
          else itemText rest)"

fun taskItemText :: "node list \<Rightarrow> jstring" where
  "taskItemText [] = []"
| "taskItemText (itemChild # rest) =
     (case itemChild of
        Text t ms \<Rightarrow> taskItemText rest
      | Node ty a cs \<Rightarrow>
          if ty = ''paragraph'' then nodeToText itemChild @ taskItemText rest
          else taskItemText rest)"

fun taskItems :: "node list \<Rightarrow> jstring" where
  "taskItems [] = []"
| "taskItems (taskItem # rest) =
     (case taskItem of
        Text t ms \<Rightarrow> taskItems rest
      | Node ty a cs \<Rightarrow>
          if ty = ''task_list_item'' then
            (if trim (taskItemText cs) \<noteq> [] then
               str ''- '' @ (if attr_checked a then str ''[x]'' else str ''[ ]'') @ str '' ''
                 @ trim (taskItemText cs) @ [0x0A] @ taskItems rest
             else taskItems rest)
          else taskItems rest)"

definition serializeTaskList :: "node \<Rightarrow> jstring" where
  "serializeTaskList taskListNode =
     (case taskListNode of
        Text t ms \<Rightarrow> []
      | Node ty a items \<Rightarrow> trimEnd (taskItems items))"

subsection \<open>The document\<close>

text \<open>The \<open>switch\<close> on the type name of a top-level node. A text leaf has the type
  name \<open>text\<close>, which falls to the default case, and no children.\<close>

definition nodeMarkdown :: "node \<Rightarrow> jstring" where
  "nodeMarkdown n =
     (case n of
        Text t ms \<Rightarrow> []
      | Node ty a cs \<Rightarrow>
          if ty = ''paragraph'' then nodeToText n
          else if ty = ''heading'' then replicate (attr_level a) (cu CHR ''#'') @ str '' '' @ nodeToText n
          else if ty = ''blockquote'' then str ''> '' @ nodeToText n
          else if ty = ''code_block'' then
            str ''```'' @ attr_langPrefix a @ [0x0A] @ textContent n @ [0x0A] @ str ''```''
          else if ty = ''bullet_list'' then serializeList n (str ''-'') None
          else if ty = ''ordered_list'' then serializeList n (str ''1.'') (Some (attr_order_or_1 a))
          else if ty = ''task_list'' then serializeTaskList n
          else if ty = ''task_list_item'' then []
          else if ty = ''list_item'' then []
          else if ty = ''horizontal_rule'' then str ''---''
          else (if trim (nodeToText n) \<noteq> [] then nodeToText n else []))"

text \<open>The body of \<open>doc.forEach\<close>, on the pair of \<open>markdown\<close> and \<open>isFirst\<close>.\<close>

definition serializeStep :: "jstring \<times> bool \<Rightarrow> node \<Rightarrow> jstring \<times> bool" where
  "serializeStep st n =
     (let markdown = fst st; isFirst = snd st;
          markdown1 = (if \<not> isFirst then markdown @ [0x0A] else markdown);
          markdown2 = (if nodeMarkdown n \<noteq> [] \<or> (case n of Node ty a cs \<Rightarrow> ty = ''paragraph'' | Text t ms \<Rightarrow> False)
                       then markdown1 @ nodeMarkdown n else markdown1)
      in (markdown2, False))"

definition serializeToMarkdown :: "node \<Rightarrow> jstring" where
  "serializeToMarkdown doc =
     (case doc of
        Text t ms \<Rightarrow> []
      | Node ty a cs \<Rightarrow> fst (foldl serializeStep ([], True) cs))"


subsection \<open>Items that produce no text\<close>

text \<open>A list item, or a task item, whose collected text is empty or white space only:
  the test \<open>itemText.trim()\<close> of the two list serializers fails on it.\<close>

definition emptyListItem :: "node \<Rightarrow> bool" where
  "emptyListItem n = (case n of Text t ms \<Rightarrow> False
      | Node ty a cs \<Rightarrow> ty = ''list_item'' \<and> trim (itemText cs) = [])"

definition emptyTaskItem :: "node \<Rightarrow> bool" where
  "emptyTaskItem n = (case n of Text t ms \<Rightarrow> False
      | Node ty a cs \<Rightarrow> ty = ''task_list_item'' \<and> trim (taskItemText cs) = [])"

section \<open>The parser: from markdown to markup\<close>

subsection \<open>The patterns of the line classifier\<close>

text \<open>
  Each pattern is anchored at the start of the trimmed line. A matcher returns the rest of
  the string after the match, which is also the result of \<open>replace(pattern, '')\<close>. In
  every pattern a repetition is followed by a character outside the repeated class (or by
  nothing), so the greedy match is the only one.
\<close>

definition match_lit :: "int \<Rightarrow> jstring \<Rightarrow> jstring option" where
  "match_lit c s = (case s of [] \<Rightarrow> None | x # xs \<Rightarrow> if x = c then Some xs else None)"

text \<open>\<open>\s*\<close> and \<open>\s+\<close>.\<close>

definition match_ws_star :: "jstring \<Rightarrow> jstring option" where
  "match_ws_star s = Some (dropWhile is_ws s)"

definition match_ws_plus :: "jstring \<Rightarrow> jstring option" where
  "match_ws_plus s =
     (case s of [] \<Rightarrow> None | x # xs \<Rightarrow> if is_ws x then Some (dropWhile is_ws xs) else None)"

definition is_digit :: "int \<Rightarrow> bool" where
  "is_digit c = (cu CHR ''0'' \<le> c \<and> c \<le> cu CHR ''9'')"

text \<open>\<open>\d+\<close>.\<close>

definition match_digits_plus :: "jstring \<Rightarrow> jstring option" where
  "match_digits_plus s =
     (case s of [] \<Rightarrow> None | x # xs \<Rightarrow> if is_digit x then Some (dropWhile is_digit xs) else None)"

text \<open>\<open>/^#{1,6}\s+/\<close>, with the length of the match of \<open>/^#{1,6}/\<close>.\<close>

definition re_heading :: "jstring \<Rightarrow> (nat \<times> jstring) option" where
  "re_heading t =
     (let hashes = takeWhile (\<lambda>c. c = cu CHR ''#'') t; rest = dropWhile (\<lambda>c. c = cu CHR ''#'') t
      in if 1 \<le> length hashes \<and> length hashes \<le> 6
         then map_option (\<lambda>text. (length hashes, text)) (match_ws_plus rest)
         else None)"

text \<open>\<open>/^```/\<close>, also \<open>startsWith('```')\<close>.\<close>

definition re_fence :: "jstring \<Rightarrow> jstring option" where
  "re_fence t = (case t of a # b # c # lang \<Rightarrow>
       if a = 0x60 \<and> b = 0x60 \<and> c = 0x60 then Some lang else None
     | _ \<Rightarrow> None)"

text \<open>\<open>/^-\s*\[\s*\]\s+/\<close>.\<close>

definition re_unchecked :: "jstring \<Rightarrow> jstring option" where
  "re_unchecked t =
     Option.bind (match_lit (cu CHR ''-'') t) (\<lambda>s1.
     Option.bind (match_ws_star s1) (\<lambda>s2.
     Option.bind (match_lit (cu CHR ''['') s2) (\<lambda>s3.
     Option.bind (match_ws_star s3) (\<lambda>s4.
     Option.bind (match_lit (cu CHR '']'') s4) match_ws_plus))))"

text \<open>\<open>/^-\s*\[x\]\s+/i\<close>.\<close>

definition re_checked :: "jstring \<Rightarrow> jstring option" where
  "re_checked t =
     Option.bind (match_lit (cu CHR ''-'') t) (\<lambda>s1.
     Option.bind (match_ws_star s1) (\<lambda>s2.
     Option.bind (match_lit (cu CHR ''['') s2) (\<lambda>s3.
     Option.bind (case match_lit (cu CHR ''x'') s3 of Some r \<Rightarrow> Some r | None \<Rightarrow> match_lit (cu CHR ''X'') s3) (\<lambda>s4.
     Option.bind (match_lit (cu CHR '']'') s4) match_ws_plus))))"

text \<open>\<open>/^\s*\d+\.\s+/\<close>.\<close>

definition re_ordered :: "jstring \<Rightarrow> jstring option" where
  "re_ordered t =
     Option.bind (match_ws_star t) (\<lambda>s1.
     Option.bind (match_digits_plus s1) (\<lambda>s2.
     Option.bind (match_lit (cu CHR ''.'') s2) match_ws_plus))"

text \<open>\<open>/^\s*[-*+]\s+/\<close>.\<close>

definition re_unordered :: "jstring \<Rightarrow> jstring option" where
  "re_unordered t =
     Option.bind (match_ws_star t) (\<lambda>s1.
       case s1 of [] \<Rightarrow> None
       | x # xs \<Rightarrow> if x = cu CHR ''-'' \<or> x = cu CHR ''*'' \<or> x = cu CHR ''+'' then match_ws_plus xs else None)"

text \<open>\<open>/^>\s+/\<close>.\<close>

definition re_blockquote :: "jstring \<Rightarrow> jstring option" where
  "re_blockquote t = Option.bind (match_lit (cu CHR ''>'') t) match_ws_plus"

text \<open>\<open>/^---+$/\<close>.\<close>

definition re_hr :: "jstring \<Rightarrow> bool" where
  "re_hr t = (3 \<le> length t \<and> list_all (\<lambda>c. c = cu CHR ''-'') t)"

subsection \<open>Inline substitutions\<close>

text \<open>
  \<open>text.replace(pattern, replacement)\<close> with a global pattern: the string is scanned from
  the left; where the pattern matches, the match is replaced and the scan goes on after
  it, elsewhere the character is kept. A pattern is given by its match at the head of a
  string, which may look at the character before (for a lookbehind) and returns the
  replacement and the number of characters matched.
\<close>

function replace_all :: "(int option \<Rightarrow> jstring \<Rightarrow> (jstring \<times> nat) option) \<Rightarrow> int option \<Rightarrow> jstring \<Rightarrow> jstring" where
  "replace_all m prev [] = []"
| "replace_all m prev (c # cs) =
     (case m prev (c # cs) of
        None \<Rightarrow> c # replace_all m (Some c) cs
      | Some (rep, n) \<Rightarrow>
          if 0 < n \<and> n \<le> length (c # cs)
          then rep @ replace_all m (Some ((c # cs) ! (n - 1))) (drop n (c # cs))
          else c # replace_all m (Some c) cs)"
  by pat_completeness auto
termination
  by (relation "measure (\<lambda>(m, prev, s). length s)") auto

text \<open>\<open>.\<close> does not match a line terminator: LF, CR, U+2028, U+2029.\<close>

definition line_terminator :: "int \<Rightarrow> bool" where
  "line_terminator c = (c = 0x0A \<or> c = 0x0D \<or> c = 0x2028 \<or> c = 0x2029)"

text \<open>\<open>(.*?)\<close> followed by the closing delimiter \<open>d\<close>: the shortest run of characters up
  to the first occurrence of \<open>d\<close>. The result is the run and the number of characters
  matched, delimiter included.\<close>

fun lazy_until :: "jstring \<Rightarrow> jstring \<Rightarrow> (jstring \<times> nat) option" where
  "lazy_until d [] = (if d = [] then Some ([], 0) else None)"
| "lazy_until d (a # r) =
     (if take (length d) (a # r) = d then Some ([], length d)
      else if line_terminator a then None
      else map_option (\<lambda>(body, n). (a # body, Suc n)) (lazy_until d r))"

text \<open>\<open>/\[([^\]]+)\]\(([^)]+)\)/g\<close> to \<open><a href="$2">$1</a>\<close>.\<close>

definition link_at :: "int option \<Rightarrow> jstring \<Rightarrow> (jstring \<times> nat) option" where
  \<open>link_at prev s =
     (case s of
        [] \<Rightarrow> None
      | c # s1 \<Rightarrow>
          let txt = takeWhile (\<lambda>x. x \<noteq> cu CHR '']'') s1; s2 = dropWhile (\<lambda>x. x \<noteq> cu CHR '']'') s1
          in if c = cu CHR ''['' \<and> txt \<noteq> [] \<and> take 2 s2 = str ''](''
             then let s3 = drop 2 s2;
                      url = takeWhile (\<lambda>x. x \<noteq> cu CHR '')'') s3; s4 = dropWhile (\<lambda>x. x \<noteq> cu CHR '')'') s3
                  in if url \<noteq> [] \<and> take 1 s4 = str '')''
                     then Some (str ''<a href="'' @ url @ str ''">'' @ txt @ str ''</a>'', length txt + length url + 4)
                     else None
             else None)\<close>

text \<open>\<open>/\*\*(.*?)\*\*/g\<close> and \<open>/__(.*?)__/g\<close> to \<open><strong>$1</strong>\<close>;
  \<open>/`(.*?)`/g\<close> to \<open><code>$1</code>\<close>.\<close>

definition delimited_at :: "jstring \<Rightarrow> jstring \<Rightarrow> int option \<Rightarrow> jstring \<Rightarrow> (jstring \<times> nat) option" where
  "delimited_at d tag prev s =
     (if take (length d) s = d
      then map_option (\<lambda>(body, n). (str ''<'' @ tag @ str ''>'' @ body @ str ''</'' @ tag @ str ''>'', length d + n))
             (lazy_until d (drop (length d) s))
      else None)"

text \<open>\<open>/(?<!\*)\*([^*]+)\*(?!\*)/g\<close> and \<open>/(?<!_)_([^_]+)_(?!_)/g\<close> to \<open><em>$1</em>\<close>.\<close>

definition em_at :: "int \<Rightarrow> int option \<Rightarrow> jstring \<Rightarrow> (jstring \<times> nat) option" where
  "em_at d prev s =
     (case s of
        [] \<Rightarrow> None
      | c # s1 \<Rightarrow>
          let body = takeWhile (\<lambda>x. x \<noteq> d) s1; s2 = dropWhile (\<lambda>x. x \<noteq> d) s1
          in if prev \<noteq> Some d \<and> c = d \<and> body \<noteq> [] \<and> take 1 s2 = [d] \<and> take 1 (drop 1 s2) \<noteq> [d]
             then Some (str ''<em>'' @ body @ str ''</em>'', length body + 2)
             else None)"

definition processInlineMarkdown :: "jstring \<Rightarrow> jstring" where
  "processInlineMarkdown text =
     replace_all (delimited_at [0x60] (str ''code'')) None
       (replace_all (em_at (cu CHR ''_'')) None
         (replace_all (delimited_at (str ''__'') (str ''strong'')) None
           (replace_all (em_at (cu CHR ''*'')) None
             (replace_all (delimited_at (str ''**'') (str ''strong'')) None
               (replace_all link_at None text)))))"

subsection \<open>The line scan\<close>

text \<open>
  One round of the \<open>for\<close> loop of \<open>parseMarkdown\<close>: the markup added for the line at
  the index, and the lines that remain after the round. Only the branch of the fenced
  code block moves the index itself: it takes the lines up to the closing fence, and the
  loop's increment then skips the closing fence.
\<close>

definition lineMarkup :: "jstring \<Rightarrow> jstring list \<Rightarrow> jstring \<times> jstring list" where
  \<open>lineMarkup line rest =
     (let trimmedLine = trim line in
      if trimmedLine = [] then (str ''<p></p>'', rest)
      else case re_heading trimmedLine of
        Some (level, text) \<Rightarrow>
          (str ''<h'' @ nat_to_string level @ str ''>'' @ processInlineMarkdown text
             @ str ''</h'' @ nat_to_string level @ str ''>'', rest)
      | None \<Rightarrow>
      (case re_fence trimmedLine of
        Some lang \<Rightarrow>
          (let codeLines = takeWhile (\<lambda>l. re_fence (trim l) = None) rest;
               langAttr = (if lang \<noteq> [] then str '' data-language="'' @ lang @ str ''"'' else [])
           in (str ''<pre'' @ langAttr @ str ''><code>'' @ join [0x0A] codeLines @ str ''</code></pre>'',
               drop 1 (dropWhile (\<lambda>l. re_fence (trim l) = None) rest)))
      | None \<Rightarrow>
      (case re_unchecked trimmedLine of
        Some text \<Rightarrow>
          (str ''<ul data-type="taskList"><li data-type="taskItem" data-checked="false" class="task-item-unchecked">''
             @ processInlineMarkdown text @ str ''</li></ul>'', rest)
      | None \<Rightarrow>
      (case re_checked trimmedLine of
        Some text \<Rightarrow>
          (str ''<ul data-type="taskList"><li data-type="taskItem" data-checked="true" class="task-item-checked">''
             @ processInlineMarkdown text @ str ''</li></ul>'', rest)
      | None \<Rightarrow>
      (case re_ordered trimmedLine of
        Some text \<Rightarrow> (str ''<ol><li>'' @ processInlineMarkdown text @ str ''</li></ol>'', rest)
      | None \<Rightarrow>
      (case re_unordered trimmedLine of
        Some text \<Rightarrow> (str ''<ul><li>'' @ processInlineMarkdown text @ str ''</li></ul>'', rest)
      | None \<Rightarrow>
      (case re_blockquote trimmedLine of
        Some text \<Rightarrow> (str ''<blockquote>'' @ processInlineMarkdown text @ str ''</blockquote>'', rest)
      | None \<Rightarrow>
      if re_hr trimmedLine then (str ''<hr>'', rest)
      else (str ''<p>'' @ processInlineMarkdown line @ str ''</p>'', rest))))))))\<close>

lemma lineMarkup_rest: "length (snd (lineMarkup line rest)) \<le> length rest"
proof -
  have "length (drop 1 (dropWhile P rest)) \<le> length rest" for P :: "jstring \<Rightarrow> bool"
    using length_dropWhile_le [of P rest] by simp
  then show ?thesis
    by (simp add: lineMarkup_def Let_def split: option.splits prod.splits)
qed

function linesMarkup :: "jstring list \<Rightarrow> jstring" where
  "linesMarkup [] = []"
| "linesMarkup (line # rest) =
     fst (lineMarkup line rest) @ linesMarkup (snd (lineMarkup line rest))"
  by pat_completeness auto
termination
  by (relation "measure length") (auto simp: lineMarkup_rest less_Suc_eq_le)

subsection \<open>The line scan as a table of rules\<close>

text \<open>
  The classification as the spec words it (sections 4.2 and 9): an ordered list of rules,
  each a test of the trimmed line with its handler; the first rule that matches gives the
  markup of the line, and a line that no rule matches is a paragraph of the line as it is.
\<close>

datatype line_rule = BlankLine | Heading | Fence | Unchecked | Checked | Ordered | Unordered
  | Blockquote | HorizontalRule

definition rule_order :: "line_rule list" where
  "rule_order = [BlankLine, Heading, Fence, Unchecked, Checked, Ordered, Unordered, Blockquote,
     HorizontalRule]"

fun rule_handler :: "line_rule \<Rightarrow> jstring \<Rightarrow> jstring list \<Rightarrow> (jstring \<times> jstring list) option" where
  "rule_handler BlankLine t rest = (if t = [] then Some (str ''<p></p>'', rest) else None)"
| "rule_handler Heading t rest =
     map_option (\<lambda>(level, text).
         (str ''<h'' @ nat_to_string level @ str ''>'' @ processInlineMarkdown text
            @ str ''</h'' @ nat_to_string level @ str ''>'', rest))
       (re_heading t)"
| "rule_handler Fence t rest =
     map_option (\<lambda>lang.
         (str ''<pre'' @ (if lang \<noteq> [] then str '' data-language='' @ [0x22] @ lang @ [0x22] else [])
            @ str ''><code>'' @ join [0x0A] (takeWhile (\<lambda>l. re_fence (trim l) = None) rest)
            @ str ''</code></pre>'',
          drop 1 (dropWhile (\<lambda>l. re_fence (trim l) = None) rest)))
       (re_fence t)"
| "rule_handler Unchecked t rest =
     map_option (\<lambda>text.
         (str ''<ul data-type='' @ [0x22] @ str ''taskList'' @ [0x22] @ str ''><li data-type='' @ [0x22]
            @ str ''taskItem'' @ [0x22] @ str '' data-checked='' @ [0x22] @ str ''false'' @ [0x22]
            @ str '' class='' @ [0x22] @ str ''task-item-unchecked'' @ [0x22] @ str ''>''
            @ processInlineMarkdown text @ str ''</li></ul>'', rest))
       (re_unchecked t)"
| "rule_handler Checked t rest =
     map_option (\<lambda>text.
         (str ''<ul data-type='' @ [0x22] @ str ''taskList'' @ [0x22] @ str ''><li data-type='' @ [0x22]
            @ str ''taskItem'' @ [0x22] @ str '' data-checked='' @ [0x22] @ str ''true'' @ [0x22]
            @ str '' class='' @ [0x22] @ str ''task-item-checked'' @ [0x22] @ str ''>''
            @ processInlineMarkdown text @ str ''</li></ul>'', rest))
       (re_checked t)"
| "rule_handler Ordered t rest =
     map_option (\<lambda>text. (str ''<ol><li>'' @ processInlineMarkdown text @ str ''</li></ol>'', rest)) (re_ordered t)"
| "rule_handler Unordered t rest =
     map_option (\<lambda>text. (str ''<ul><li>'' @ processInlineMarkdown text @ str ''</li></ul>'', rest)) (re_unordered t)"
| "rule_handler Blockquote t rest =
     map_option (\<lambda>text. (str ''<blockquote>'' @ processInlineMarkdown text @ str ''</blockquote>'', rest))
       (re_blockquote t)"
| "rule_handler HorizontalRule t rest = (if re_hr t then Some (str ''<hr>'', rest) else None)"

fun first_match :: "line_rule list \<Rightarrow> jstring \<Rightarrow> jstring list \<Rightarrow> (jstring \<times> jstring list) option" where
  "first_match [] t rest = None"
| "first_match (r # rs) t rest =
     (case rule_handler r t rest of Some x \<Rightarrow> Some x | None \<Rightarrow> first_match rs t rest)"

definition classified_markup :: "jstring \<Rightarrow> jstring list \<Rightarrow> jstring \<times> jstring list" where
  "classified_markup line rest =
     (case first_match rule_order (trim line) rest of
        Some x \<Rightarrow> x
      | None \<Rightarrow> (str ''<p>'' @ processInlineMarkdown line @ str ''</p>'', rest))"
section \<open>The parser: from markup to the tree\<close>

text \<open>
  The markup string goes through three steps of libraries the program calls: the HTML
  parser of the host (\<open>DOMPurify.sanitize\<close> and \<open>innerHTML\<close> read the string), the
  sanitizer with the configuration written in \<open>parseMarkdown\<close>, and the reader
  \<open>DOMParser.fromSchema(schema).parse\<close>, which builds the document tree by the parse
  rules of the schema. The libraries are not part of the repository; they are given here
  by their documented behaviour on a fragment of HTML, and a markup outside the fragment
  has no reading (\<open>None\<close>): nothing is stated about the program on such a markup.
\<close>

subsection \<open>Reading the markup\<close>

datatype dom = Elem (elem_tag: jstring) (elem_attrs: "(jstring \<times> jstring) list") (elem_children: "dom list")
  | TextNode jstring

datatype token = TOpen jstring "(jstring \<times> jstring) list" | TClose jstring | TText jstring

definition is_upper :: "int \<Rightarrow> bool" where
  "is_upper c = (cu CHR ''A'' \<le> c \<and> c \<le> cu CHR ''Z'')"

definition is_lower :: "int \<Rightarrow> bool" where
  "is_lower c = (cu CHR ''a'' \<le> c \<and> c \<le> cu CHR ''z'')"

definition lower_char :: "int \<Rightarrow> int" where
  "lower_char c = (if is_upper c then c + 32 else c)"

definition is_name_char :: "int \<Rightarrow> bool" where
  "is_name_char c = (is_lower c \<or> is_upper c \<or> is_digit c \<or> c = cu CHR ''-'')"

text \<open>The white space of the HTML syntax: tab, line feed, form feed and space (a
  carriage return is a line feed by then).\<close>

definition is_html_space :: "int \<Rightarrow> bool" where
  "is_html_space c = (c = 0x09 \<or> c = 0x0A \<or> c = 0x0C \<or> c = 0x20)"

text \<open>The input stream of the HTML parser: CR LF and a single CR are LF.\<close>

fun normalize_newlines :: "jstring \<Rightarrow> jstring" where
  "normalize_newlines (a # b # r) =
     (if a = 0x0D \<and> b = 0x0A then 0x0A # normalize_newlines r
      else (if a = 0x0D then 0x0A else a) # normalize_newlines (b # r))"
| "normalize_newlines [a] = [if a = 0x0D then 0x0A else a]"
| "normalize_newlines [] = []"

text \<open>
  The attributes of a start tag, from the end of the tag name to the closing \<open>>\<close>:
  white space, a name of letters, digits and hyphens, an equals sign and a value in double
  quotes in which none of \<open>&\<close>, \<open><\<close>, \<open>>\<close> occurs. Other ways of writing an attribute
  are outside the fragment. The comparison of lengths is always true; it makes the
  termination evident.
\<close>

function read_attrs :: "jstring \<Rightarrow> ((jstring \<times> jstring) list \<times> jstring) option" where
  "read_attrs s =
     (case dropWhile is_html_space s of
        [] \<Rightarrow> None
      | c # r \<Rightarrow>
          if c = cu CHR ''>'' then Some ([], r)
          else if dropWhile is_html_space s = s then None
          else
            (let name = takeWhile is_name_char (c # r); s2 = dropWhile is_name_char (c # r)
             in if name = [] \<or> take 2 s2 \<noteq> [cu CHR ''='', 0x22] then None
                else
                  (let v = takeWhile (\<lambda>x. x \<noteq> 0x22) (drop 2 s2);
                       s4 = dropWhile (\<lambda>x. x \<noteq> 0x22) (drop 2 s2)
                   in if s4 = [] \<or> cu CHR ''&'' \<in> set v \<or> cu CHR ''<'' \<in> set v \<or> cu CHR ''>'' \<in> set v
                         \<or> \<not> length (drop 1 s4) < length s then None
                      else map_option (\<lambda>(as, rest). ((map lower_char name, v) # as, rest))
                             (read_attrs (drop 1 s4)))))"
  by pat_completeness auto
termination
  by (relation "measure length") auto

text \<open>A tag, after its \<open><\<close>: an end tag \<open>/name>\<close> or a start tag with attributes.\<close>

definition read_tag :: "jstring \<Rightarrow> (token \<times> jstring) option" where
  "read_tag s =
     (case s of
        [] \<Rightarrow> None
      | c # r \<Rightarrow>
          if c = cu CHR ''/'' then
            (let name = takeWhile is_name_char r; s1 = dropWhile is_name_char r
             in if name \<noteq> [] \<and> (is_lower (hd name) \<or> is_upper (hd name)) \<and> take 1 s1 = str ''>''
                then Some (TClose (map lower_char name), drop 1 s1)
                else None)
          else if is_lower c \<or> is_upper c then
            map_option (\<lambda>(as, rest). (TOpen (map lower_char (takeWhile is_name_char s)) as, rest))
              (read_attrs (dropWhile is_name_char s))
          else None)"

text \<open>
  Text runs up to the next tag or character reference. A \<open><\<close> opens a tag when a letter,
  \<open>/\<close>, \<open>!\<close> or \<open>?\<close> follows, and is text otherwise; an \<open>&\<close> opens a character
  reference when a letter, a digit or \<open>#\<close> follows, and is text otherwise. Character
  references and the character U+0000 are outside the fragment.
\<close>

definition opens_tag :: "jstring \<Rightarrow> bool" where
  "opens_tag r = (case r of [] \<Rightarrow> False
     | c # _ \<Rightarrow> is_lower c \<or> is_upper c \<or> c = cu CHR ''/'' \<or> c = cu CHR ''!'' \<or> c = cu CHR ''?'')"

definition opens_reference :: "jstring \<Rightarrow> bool" where
  "opens_reference r = (case r of [] \<Rightarrow> False
     | c # _ \<Rightarrow> is_lower c \<or> is_upper c \<or> is_digit c \<or> c = cu CHR ''#'')"

definition ends_text :: "int \<Rightarrow> jstring \<Rightarrow> bool" where
  "ends_text c r = ((c = cu CHR ''<'' \<and> opens_tag r) \<or> (c = cu CHR ''&'' \<and> opens_reference r) \<or> c = 0)"

fun text_run :: "jstring \<Rightarrow> jstring" where
  "text_run [] = []"
| "text_run (c # cs) = (if ends_text c cs then [] else c # text_run cs)"

function tokenize :: "jstring \<Rightarrow> token list option" where
  "tokenize [] = Some []"
| "tokenize (c # cs) =
     (if text_run (c # cs) \<noteq> [] then
        map_option (\<lambda>ts. TText (text_run (c # cs)) # ts)
          (tokenize (drop (length (text_run (c # cs))) (c # cs)))
      else if c = cu CHR ''<'' then
        (case read_tag cs of
           None \<Rightarrow> None
         | Some (tok, rest) \<Rightarrow>
             if length rest \<le> length cs then map_option (\<lambda>ts. tok # ts) (tokenize rest) else None)
      else None)"
  by pat_completeness auto
termination
  by (relation "measure length") (auto simp: less_Suc_eq_le)

text \<open>
  The tree of a token list: a stack of the open elements, each with its children so far
  in reverse; \<open>hr\<close> has no end tag. An end tag must close the innermost open element
  and nothing may stay open: the recovery rules of HTML for other input are outside the
  fragment.
\<close>

fun build :: "token list \<Rightarrow> (jstring \<times> (jstring \<times> jstring) list \<times> dom list) list \<Rightarrow> dom list \<Rightarrow> dom list option" where
  "build [] [] root = Some (rev root)"
| "build [] (f # fs) root = None"
| "build (TText t # ts) [] root = build ts [] (TextNode t # root)"
| "build (TText t # ts) ((n, a, kids) # fs) root = build ts ((n, a, TextNode t # kids) # fs) root"
| "build (TOpen n a # ts) [] root =
     (if n = str ''hr'' then build ts [] (Elem n a [] # root) else build ts [(n, a, [])] root)"
| "build (TOpen n a # ts) ((pn, pa, kids) # fs) root =
     (if n = str ''hr'' then build ts ((pn, pa, Elem n a [] # kids) # fs) root
      else build ts ((n, a, []) # (pn, pa, kids) # fs) root)"
| "build (TClose n # ts) [] root = None"
| "build (TClose n # ts) [(pn, pa, kids)] root =
     (if n = pn then build ts [] (Elem pn pa (rev kids) # root) else None)"
| "build (TClose n # ts) ((pn, pa, kids) # (qn, qa, qkids) # fs) root =
     (if n = pn then build ts ((qn, qa, Elem pn pa (rev kids) # qkids) # fs) root else None)"

text \<open>
  The shapes in which the HTML parser builds the tree exactly as the tags nest: the
  blocks \<open>parseMarkdown\<close> writes, side by side, with inline content of text, \<open>strong\<close>,
  \<open>em\<close>, \<open>code\<close>, \<open>a\<close> (not inside another \<open>a\<close>) and \<open>script\<close> with raw text; a
  \<open>pre\<close> holds one \<open>code\<close>. Every other markup is outside the fragment.
\<close>

fun inline_shape :: "bool \<Rightarrow> dom \<Rightarrow> bool"
and inlines_shape :: "bool \<Rightarrow> dom list \<Rightarrow> bool" where
  "inline_shape in_a (TextNode t) = True"
| "inline_shape in_a (Elem n a kids) =
     (distinct (map fst a) \<and>
      (if n = str ''strong'' \<or> n = str ''em'' \<or> n = str ''code'' then inlines_shape in_a kids
       else if n = str ''a'' then \<not> in_a \<and> inlines_shape True kids
       else if n = str ''script'' then (case kids of [] \<Rightarrow> True | [TextNode t] \<Rightarrow> True | _ \<Rightarrow> False)
       else False))"
| "inlines_shape in_a [] = True"
| "inlines_shape in_a (d # ds) = (inline_shape in_a d \<and> inlines_shape in_a ds)"

definition is_heading_tag :: "jstring \<Rightarrow> bool" where
  "is_heading_tag n = (n \<in> set (map str [''h1'', ''h2'', ''h3'', ''h4'', ''h5'', ''h6'']))"

definition is_task_list :: "dom \<Rightarrow> bool" where
  "is_task_list d = (case d of TextNode t \<Rightarrow> False
     | Elem n a kids \<Rightarrow> n = str ''ul'' \<and> map_of a (str ''data-type'') = Some (str ''taskList''))"

definition is_task_item :: "dom \<Rightarrow> bool" where
  "is_task_item d = (case d of TextNode t \<Rightarrow> False
     | Elem n a kids \<Rightarrow> n = str ''li'' \<and> map_of a (str ''data-type'') = Some (str ''taskItem''))"

definition item_shape :: "bool \<Rightarrow> dom \<Rightarrow> bool" where
  "item_shape task d = (case d of TextNode t \<Rightarrow> False
     | Elem n a kids \<Rightarrow> n = str ''li'' \<and> distinct (map fst a) \<and> is_task_item d = task
         \<and> inlines_shape False kids)"

definition block_shape :: "dom \<Rightarrow> bool" where
  "block_shape d = (case d of TextNode t \<Rightarrow> False
     | Elem n a kids \<Rightarrow> distinct (map fst a) \<and>
         (if n = str ''p'' \<or> is_heading_tag n \<or> n = str ''blockquote'' then inlines_shape False kids
          else if n = str ''pre'' then
            (case kids of [Elem c ca ckids] \<Rightarrow> c = str ''code'' \<and> inlines_shape False kids | _ \<Rightarrow> False)
          else if n = str ''ul'' \<or> n = str ''ol'' then kids \<noteq> [] \<and> list_all (item_shape (is_task_list d)) kids
          else n = str ''hr''))"

definition read_markup :: "jstring \<Rightarrow> dom list option" where
  "read_markup html =
     (case tokenize (normalize_newlines html) of
        None \<Rightarrow> None
      | Some ts \<Rightarrow>
          (case build ts [] [] of
             None \<Rightarrow> None
           | Some ds \<Rightarrow> if list_all block_shape ds then Some ds else None))"

subsection \<open>The sanitizer\<close>

text \<open>The configuration passed to \<open>DOMPurify.sanitize\<close> in \<open>parseMarkdown\<close>.\<close>

definition ALLOWED_TAGS :: "jstring list" where
  "ALLOWED_TAGS = map str [''h1'', ''h2'', ''h3'', ''h4'', ''h5'', ''h6'', ''p'', ''strong'', ''em'', ''code'',
     ''pre'', ''ul'', ''ol'', ''li'', ''blockquote'', ''a'', ''hr'']"

definition ALLOWED_ATTR :: "jstring list" where
  "ALLOWED_ATTR = map str [''href'', ''data-language'', ''data-type'', ''data-checked'', ''class'']"

definition ALLOW_DATA_ATTR :: bool where
  "ALLOW_DATA_ATTR = True"

text \<open>
  The defaults of the library that the configuration leaves as they are: ARIA attributes
  are allowed, the content of a removed element is kept except under the tags listed, and
  the attributes listed need no check of their value.
\<close>

definition ALLOW_ARIA_ATTR :: bool where
  "ALLOW_ARIA_ATTR = True"

definition FORBID_CONTENTS :: "jstring list" where
  "FORBID_CONTENTS = map str [''annotation-xml'', ''audio'', ''colgroup'', ''desc'', ''foreignobject'',
     ''head'', ''iframe'', ''math'', ''mi'', ''mn'', ''mo'', ''ms'', ''mtext'', ''noembed'', ''noframes'',
     ''noscript'', ''plaintext'', ''script'', ''style'', ''svg'', ''template'', ''thead'', ''title'',
     ''video'', ''xmp'']"

definition URI_SAFE_ATTRIBUTES :: "jstring list" where
  "URI_SAFE_ATTRIBUTES = map str [''alt'', ''class'', ''for'', ''id'', ''label'', ''name'', ''pattern'',
     ''placeholder'', ''role'', ''summary'', ''title'', ''value'', ''style'', ''xmlns'']"

text \<open>\<open>/^data-[\-\w.\u00B7-\uFFFF]+$/\<close> and \<open>/^aria-[\-\w]+$/\<close>, on lower-case names.\<close>

definition is_word_char :: "int \<Rightarrow> bool" where
  "is_word_char c = (is_lower c \<or> is_upper c \<or> is_digit c \<or> c = cu CHR ''_'')"

definition is_data_attr :: "jstring \<Rightarrow> bool" where
  "is_data_attr name =
     (take 5 name = str ''data-'' \<and> drop 5 name \<noteq> []
      \<and> list_all (\<lambda>c. c = cu CHR ''-'' \<or> is_word_char c \<or> c = cu CHR ''.'' \<or> (0xB7 \<le> c \<and> c \<le> 0xFFFF))
           (drop 5 name))"

definition is_aria_attr :: "jstring \<Rightarrow> bool" where
  "is_aria_attr name =
     (take 5 name = str ''aria-'' \<and> drop 5 name \<noteq> []
      \<and> list_all (\<lambda>c. c = cu CHR ''-'' \<or> is_word_char c) (drop 5 name))"

text \<open>
  The check of an attribute value: with the characters of
  \<open>/[\u0000-\u0020\u00A0\u1680\u180E\u2000-\u2029\u205F\u3000]/g\<close> removed, it starts with
  a character that is not a letter, or its run of \<open>[a-z+.-]\<close> is not followed by a
  colon, or that run is one of the schemes allowed; an empty value passes as well.
\<close>

definition is_attr_whitespace :: "int \<Rightarrow> bool" where
  "is_attr_whitespace c = (c \<le> 0x20 \<or> c = 0xA0 \<or> c = 0x1680 \<or> c = 0x180E
     \<or> (0x2000 \<le> c \<and> c \<le> 0x2029) \<or> c = 0x205F \<or> c = 0x3000)"

definition is_scheme_char :: "int \<Rightarrow> bool" where
  "is_scheme_char c = (is_lower c \<or> is_upper c \<or> c = cu CHR ''+'' \<or> c = cu CHR ''.'' \<or> c = cu CHR ''-'')"

definition is_allowed_uri :: "jstring \<Rightarrow> bool" where
  "is_allowed_uri v =
     (case v of
        [] \<Rightarrow> False
      | c # r \<Rightarrow>
          \<not> (is_lower c \<or> is_upper c)
          \<or> take 1 (dropWhile is_scheme_char v) \<noteq> str '':''
          \<or> map lower_char (takeWhile is_scheme_char v)
               \<in> set (map str [''ftp'', ''ftps'', ''http'', ''https'', ''mailto'', ''tel'', ''callto'', ''sms'',
                       ''cid'', ''xmpp'', ''matrix'']))"

definition valid_attribute :: "jstring \<Rightarrow> jstring \<Rightarrow> bool" where
  "valid_attribute name v =
     (if ALLOW_DATA_ATTR \<and> is_data_attr name then True
      else if ALLOW_ARIA_ATTR \<and> is_aria_attr name then True
      else if name \<notin> set ALLOWED_ATTR then False
      else if name \<in> set URI_SAFE_ATTRIBUTES then True
      else if is_allowed_uri (filter (\<lambda>c. \<not> is_attr_whitespace c) v) then True
      else v = [])"

text \<open>
  The walk over the tree: an element with an allowed tag keeps its valid attributes, each
  with its value trimmed; an element with another tag is removed and its content takes its
  place, unless the tag forbids that.
\<close>

definition sanitizeAttributes :: "(jstring \<times> jstring) list \<Rightarrow> (jstring \<times> jstring) list" where
  "sanitizeAttributes a =
     filter (\<lambda>(name, v). valid_attribute name v) (map (\<lambda>(name, v). (name, trim v)) a)"

fun sanitizeNode :: "dom \<Rightarrow> dom list"
and sanitizeNodes :: "dom list \<Rightarrow> dom list" where
  "sanitizeNode (TextNode t) = [TextNode t]"
| "sanitizeNode (Elem n a kids) =
     (if n \<in> set ALLOWED_TAGS
      then [Elem n (sanitizeAttributes a) (sanitizeNodes kids)]
      else if n \<in> set FORBID_CONTENTS then []
      else sanitizeNodes kids)"
| "sanitizeNodes [] = []"
| "sanitizeNodes (d # ds) = sanitizeNode d @ sanitizeNodes ds"

text \<open>
  The sanitizer returns a string, which \<open>innerHTML\<close> reads again: texts that have become
  neighbours are one text, and an empty text is none.
\<close>

fun join_texts :: "dom list \<Rightarrow> dom list" where
  "join_texts (TextNode s # TextNode t # rest) = join_texts (TextNode (s @ t) # rest)"
| "join_texts (TextNode s # rest) = (if s = [] then join_texts rest else TextNode s # join_texts rest)"
| "join_texts (Elem n a kids # rest) = Elem n a (join_texts kids) # join_texts rest"
| "join_texts [] = []"

subsection \<open>The schema\<close>

text \<open>
  \<open>simpleEditorSchema\<close> (file \<open>SimpleEditorSchema\<close>): the node types and the mark types
  in the order of their declaration. The order of the marks is the order in which a text
  holds them.
\<close>

definition schema_nodes :: "string list" where
  "schema_nodes = [''doc'', ''paragraph'', ''text'', ''heading'', ''blockquote'', ''code_block'',
     ''hard_break'', ''horizontal_rule'', ''bullet_list'', ''ordered_list'', ''list_item'', ''task_list'',
     ''task_list_item'']"

definition schema_marks :: "string list" where
  "schema_marks = [''strong'', ''em'', ''code'', ''link'']"

text \<open>\<open>schema.nodes.doc.createAndFill()\<close>: the content \<open>block+\<close> of a document is filled
  with the first block type, an empty paragraph.\<close>

definition createAndFill :: node where
  "createAndFill = Node ''doc'' NoAttrs [Node ''paragraph'' NoAttrs []]"

definition mark_rank :: "mark \<Rightarrow> nat" where
  "mark_rank m = length (takeWhile (\<lambda>ty. ty \<noteq> mark_type m) schema_marks)"

text \<open>
  \<open>mark.addToSet(set)\<close>: a set that has the mark is left as it is; otherwise a mark of
  the same type gives way to the new one, which takes its place by rank.
\<close>

definition addToSet :: "mark \<Rightarrow> mark list \<Rightarrow> mark list" where
  "addToSet m ms =
     (if m \<in> set ms then ms
      else insort_key mark_rank m (filter (\<lambda>other. mark_type other \<noteq> mark_type m) ms))"

text \<open>
  The parse rules of the marks: \<open>strong\<close>, \<open>em\<close> and \<open>code\<close> by their tags, a link by
  \<open>a[href]\<close> with the attribute \<open>href\<close>. The rules of the library's marks for the tags
  \<open>b\<close> and \<open>i\<close> and for a \<open>style\<close> attribute are left out: a sanitized markup has none
  of them. The attribute \<open>title\<close> of a link is not kept: the serializer does not read it.
\<close>

definition marks_of_element :: "jstring \<Rightarrow> (jstring \<times> jstring) list \<Rightarrow> mark list \<Rightarrow> mark list" where
  "marks_of_element n a ms =
     (if n = str ''strong'' then addToSet (Mark ''strong'' []) ms
      else if n = str ''em'' then addToSet (Mark ''em'' []) ms
      else if n = str ''code'' then addToSet (Mark ''code'' []) ms
      else if n = str ''a'' then
        (case map_of a (str ''href'') of Some h \<Rightarrow> addToSet (Mark ''link'' h) ms | None \<Rightarrow> ms)
      else ms)"

subsection \<open>The reader of the schema\<close>

text \<open>
  \<open>DOMParser.fromSchema(schema).parse(tempDiv)\<close> is called without the option
  \<open>preserveWhitespace\<close>. A text inside a paragraph, a heading, a list item or a block
  quote is then normalised as \<open>addTextNode\<close> of the library does it: every run of
  \<open>[ \t\r\n\u000c]\<close> becomes one space, and a space at the start is dropped when
  nothing comes before the text in its block or the text before it ends in such a space;
  a text that is empty by then adds nothing. When the block is closed, the space at the
  end of its last text is dropped. The content so far is kept with its last node first.
\<close>

definition is_pm_space :: "int \<Rightarrow> bool" where
  "is_pm_space c = (c = 0x20 \<or> c = 0x09 \<or> c = 0x0D \<or> c = 0x0A \<or> c = 0x0C)"

function collapse :: "jstring \<Rightarrow> jstring" where
  "collapse [] = []"
| "collapse (c # cs) =
     (if is_pm_space c then 0x20 # collapse (dropWhile is_pm_space cs) else c # collapse cs)"
  by pat_completeness auto
termination
  by (relation "measure length") (auto simp: length_dropWhile_le less_Suc_eq_le)

definition strips_leading :: "node list \<Rightarrow> bool" where
  "strips_leading content =
     (case content of
        [] \<Rightarrow> True
      | Text t ms # before \<Rightarrow> t \<noteq> [] \<and> is_pm_space (last t)
      | Node ty a cs # before \<Rightarrow> False)"

definition addTextNode :: "mark list \<Rightarrow> jstring \<Rightarrow> node list \<Rightarrow> node list" where
  "addTextNode marks nodeValue content =
     (let v = collapse nodeValue;
          val = (if v \<noteq> [] \<and> is_pm_space (hd v) \<and> strips_leading content then tl v else v)
      in if val \<noteq> [] then Text val marks # content else content)"

fun addInline :: "mark list \<Rightarrow> dom \<Rightarrow> node list \<Rightarrow> node list"
and addAll :: "mark list \<Rightarrow> dom list \<Rightarrow> node list \<Rightarrow> node list" where
  "addInline marks (TextNode t) content = addTextNode marks t content"
| "addInline marks (Elem n a kids) content = addAll (marks_of_element n a marks) kids content"
| "addAll marks [] content = content"
| "addAll marks (d # ds) content = addAll marks ds (addInline marks d content)"

text \<open>\<open>NodeContext.finish\<close>: the white space at the end of the last text goes, and the
  text with it when nothing else is in it.\<close>

definition finish :: "node list \<Rightarrow> node list" where
  "finish content =
     (case content of
        Text t ms # before \<Rightarrow>
          (if rev (dropWhile is_pm_space (rev t)) = [] then before
           else Text (rev (dropWhile is_pm_space (rev t))) ms # before)
      | _ \<Rightarrow> content)"

text \<open>\<open>Fragment.from\<close>: neighbouring texts with the same marks are one text.\<close>

fun merge_text :: "node list \<Rightarrow> node list" where
  "merge_text (Text s ms # Text t ms' # rest) =
     (if ms = ms' then merge_text (Text (s @ t) ms # rest)
      else Text s ms # merge_text (Text t ms' # rest))"
| "merge_text (n # rest) = n # merge_text rest"
| "merge_text [] = []"

definition inline_content :: "dom list \<Rightarrow> node list" where
  "inline_content kids = merge_text (rev (finish (addAll [] kids [])))"

text \<open>
  The content of a \<open>pre\<close>: the rule of \<open>code_block\<close> sets \<open>preserveWhitespace: 'full'\<close>,
  and the type allows no marks, so the content is the text below the element as it is.
\<close>

fun dom_text :: "dom \<Rightarrow> jstring"
and doms_text :: "dom list \<Rightarrow> jstring" where
  "dom_text (TextNode t) = t"
| "dom_text (Elem n a kids) = doms_text kids"
| "doms_text [] = []"
| "doms_text (d # ds) = dom_text d @ doms_text ds"

definition heading_level :: "jstring \<Rightarrow> nat" where
  "heading_level n =
     (if n = str ''h1'' then 1 else if n = str ''h2'' then 2 else if n = str ''h3'' then 3
      else if n = str ''h4'' then 4 else if n = str ''h5'' then 5 else 6)"

text \<open>\<open>dom.getAttribute('data-language') || null\<close>: the empty string is falsy.\<close>

definition language_of :: "(jstring \<times> jstring) list \<Rightarrow> jstring option" where
  "language_of a =
     (case map_of a (str ''data-language'') of
        None \<Rightarrow> None
      | Some l \<Rightarrow> if l = [] then None else Some l)"

text \<open>
  \<open>dom.hasAttribute("start") ? +dom.getAttribute("start") : 1\<close>, the rule of the
  library's ordered list. The number of a string of decimal digits is its value; every
  other string stands here for 0. No sanitized markup has the attribute (it is not in
  \<open>ALLOWED_ATTR\<close>), so inside \<open>parseMarkdown\<close> the order is always 1.
\<close>

definition decimal_value :: "jstring \<Rightarrow> int" where
  "decimal_value v =
     (if v \<noteq> [] \<and> list_all is_digit v then foldl (\<lambda>n c. 10 * n + (c - cu CHR ''0'')) 0 v else 0)"

definition order_of :: "(jstring \<times> jstring) list \<Rightarrow> int" where
  "order_of a = (case map_of a (str ''start'') of None \<Rightarrow> 1 | Some v \<Rightarrow> decimal_value v)"

text \<open>
  The blocks. A list item and a block quote take their inline content into a paragraph,
  as their content expressions (\<open>paragraph block*\<close> and \<open>block+\<close>) require; the rules of
  the task list and the task item come before the rules of the plain list and item
  (priority 60), and a task item is checked when \<open>data-checked\<close> is \<open>true\<close>.
\<close>

definition item_node :: "dom \<Rightarrow> node list" where
  "item_node d =
     (case d of
        TextNode t \<Rightarrow> []
      | Elem n a kids \<Rightarrow>
          if is_task_item d
          then [Node ''task_list_item'' (TaskItemAttrs (map_of a (str ''data-checked'') = Some (str ''true'')))
                  [Node ''paragraph'' NoAttrs (inline_content kids)]]
          else [Node ''list_item'' NoAttrs [Node ''paragraph'' NoAttrs (inline_content kids)]])"

definition block_node :: "dom \<Rightarrow> node list" where
  "block_node d =
     (case d of
        TextNode t \<Rightarrow> []
      | Elem n a kids \<Rightarrow>
          if n = str ''p'' then [Node ''paragraph'' NoAttrs (inline_content kids)]
          else if is_heading_tag n
            then [Node ''heading'' (HeadingAttrs (heading_level n)) (inline_content kids)]
          else if n = str ''blockquote''
            then [Node ''blockquote'' NoAttrs [Node ''paragraph'' NoAttrs (inline_content kids)]]
          else if n = str ''pre''
            then [Node ''code_block'' (CodeBlockAttrs (language_of a))
                    (if doms_text kids = [] then [] else [Text (doms_text kids) []])]
          else if n = str ''ul''
            then [Node (if is_task_list d then ''task_list'' else ''bullet_list'') NoAttrs
                    (concat (map item_node kids))]
          else if n = str ''ol''
            then [Node ''ordered_list'' (OrderedListAttrs (order_of a)) (concat (map item_node kids))]
          else if n = str ''hr'' then [Node ''horizontal_rule'' NoAttrs []]
          else [])"

definition doc_of_blocks :: "node list \<Rightarrow> node" where
  "doc_of_blocks blocks =
     (if blocks = [] then createAndFill else Node ''doc'' NoAttrs blocks)"

subsection \<open>parseMarkdown\<close>

datatype failure = Failure

text \<open>
  \<open>parseMarkdown\<close>, with the part of the \<open>try\<close> block after the line scan as a
  parameter: sanitizing and reading the markup either gives a tree or throws. The body of
  the \<open>try\<close> block returns the filled document for the empty string and the tree
  otherwise; the \<open>catch\<close> clause turns a failure into the filled document.
\<close>

definition parseMarkdown_try :: "(jstring \<Rightarrow> failure + node) \<Rightarrow> jstring \<Rightarrow> failure + node" where
  "parseMarkdown_try fromMarkup markdown =
     (if markdown = [] then Inr createAndFill
      else fromMarkup (linesMarkup (split_nl markdown)))"

definition parseMarkdown_with :: "(jstring \<Rightarrow> failure + node) \<Rightarrow> jstring \<Rightarrow> node" where
  "parseMarkdown_with fromMarkup markdown =
     (case parseMarkdown_try fromMarkup markdown of
        Inr parsedDoc \<Rightarrow> parsedDoc
      | Inl error \<Rightarrow> createAndFill)"

text \<open>
  The three library steps on the fragment read above: the markup is read, sanitized,
  read again from the sanitizer's string, and turned into the document. On that fragment
  no step throws, so \<open>parseMarkdown\<close> returns the tree. \<open>None\<close> is a markup outside the
  fragment, not a result of the program.
\<close>

definition tree_of :: "dom list \<Rightarrow> node" where
  "tree_of ds = doc_of_blocks (concat (map block_node ds))"

definition materialize :: "jstring \<Rightarrow> node option" where
  "materialize html = map_option (\<lambda>ds. tree_of (join_texts (sanitizeNodes ds))) (read_markup html)"

definition parseMarkdown :: "jstring \<Rightarrow> node option" where
  "parseMarkdown markdown =
     (if markdown = [] then Some createAndFill
      else materialize (linesMarkup (split_nl markdown)))"

subsection \<open>What a markup and a tree contain\<close>

text \<open>
  A property of every element of a markup tree, given as a test of the tag and the
  attribute list; the allow-lists as such a test, with the listed attributes and the data
  and ARIA attributes the configuration also lets pass; the same markup with the listed
  attributes only; and the trees made of the node and mark types of the schema only.
\<close>

fun all_elems :: "(jstring \<Rightarrow> (jstring \<times> jstring) list \<Rightarrow> bool) \<Rightarrow> dom \<Rightarrow> bool"
and all_elems_list :: "(jstring \<Rightarrow> (jstring \<times> jstring) list \<Rightarrow> bool) \<Rightarrow> dom list \<Rightarrow> bool" where
  "all_elems P (TextNode t) = True"
| "all_elems P (Elem n a kids) = (P n a \<and> all_elems_list P kids)"
| "all_elems_list P [] = True"
| "all_elems_list P (d # ds) = (all_elems P d \<and> all_elems_list P ds)"



fun schema_node :: "node \<Rightarrow> bool"
and schema_node_list :: "node list \<Rightarrow> bool" where
  "schema_node (Text t ms) = (t \<noteq> [] \<and> list_all (\<lambda>m. mark_type m \<in> set schema_marks) ms)"
| "schema_node (Node ty a cs) = (ty \<in> set schema_nodes \<and> ty \<noteq> ''text'' \<and> schema_node_list cs)"
| "schema_node_list [] = True"
| "schema_node_list (n # ns) = (schema_node n \<and> schema_node_list ns)"

section \<open>Verified properties\<close>

subsection \<open>Literals\<close>

lemma str_Nil [simp]: "str [] = []"
  by (simp add: str_def)

lemma str_Cons [simp]: "str (c # cs) = cu c # str cs"
  by (simp add: str_def)

subsection \<open>The serializer\<close>

lemma serializeStep_eq:
  "serializeStep (md, f) n = ((if f then md else md @ [0x0A]) @ nodeMarkdown n, False)"
  by (simp add: serializeStep_def Let_def)

lemma foldl_serializeStep:
  "foldl serializeStep (md, False) cs = (md @ concat (map (\<lambda>n. [0x0A] @ nodeMarkdown n) cs), False)"
  by (induction cs arbitrary: md) (simp_all add: serializeStep_eq)

lemma join_Cons: "join sep (x # xs) = x @ concat (map (\<lambda>y. sep @ y) xs)"
  by (induction xs arbitrary: x) simp_all

lemma join_snoc: "xs \<noteq> [] \<Longrightarrow> join sep (xs @ [x]) = join sep xs @ sep @ x"
  by (induction sep xs rule: join.induct) simp_all

lemma serialize_is_join:
  "serializeToMarkdown (Node ty a cs) = join [0x0A] (map nodeMarkdown cs)"
proof (cases cs)
  case Nil
  then show ?thesis by (simp add: serializeToMarkdown_def)
next
  case (Cons c rest)
  then show ?thesis
    by (simp add: serializeToMarkdown_def serializeStep_eq foldl_serializeStep join_Cons comp_def)
qed

text \<open>
  Claim C8. The output of the serializer is the markdown of the top-level nodes joined by
  one newline character each: exactly one newline separates two consecutive nodes, and
  the output ends with the markdown of the last node, nothing is appended after it.
\<close>

theorem top_level_separator:
  "serializeToMarkdown (Node ty a cs) = join [0x0A] (map nodeMarkdown cs)
   \<and> serializeToMarkdown (Node ty a [n]) = nodeMarkdown n
   \<and> serializeToMarkdown (Node ty a ((c # cs) @ [n]))
       = serializeToMarkdown (Node ty a (c # cs)) @ [0x0A] @ nodeMarkdown n"
  using join_snoc [of "map nodeMarkdown (c # cs)" "[0x0A]" "nodeMarkdown n"]
  by (simp add: serialize_is_join)

lemma textToMarkdown_no_link:
  "\<forall>m \<in> set ms. mark_type m \<noteq> ''link'' \<Longrightarrow> textToMarkdown t ms = foldl applyMark t ms"
proof -
  assume a: "\<forall>m \<in> set ms. mark_type m \<noteq> ''link''"
  then have "find (\<lambda>m. mark_type m = ''link'') ms = None"
    by (simp add: find_None_iff)
  moreover from a have "filter (\<lambda>m. mark_type m \<noteq> ''link'') ms = ms"
    by (simp add: filter_id_conv)
  ultimately show ?thesis by (simp add: textToMarkdown_def)
qed

lemma textToMarkdown_link:
  "find (\<lambda>m. mark_type m = ''link'') ms = Some l \<Longrightarrow>
   textToMarkdown t ms
     = str ''['' @ textToMarkdown t (filter (\<lambda>m. mark_type m \<noteq> ''link'') ms) @ str '']('' @ mark_href l @ str '')''"
proof -
  assume f: "find (\<lambda>m. mark_type m = ''link'') ms = Some l"
  have "textToMarkdown t (filter (\<lambda>m. mark_type m \<noteq> ''link'') ms)
          = foldl applyMark t (filter (\<lambda>m. mark_type m \<noteq> ''link'') ms)"
    by (rule textToMarkdown_no_link) simp
  with f show ?thesis by (simp add: textToMarkdown_def)
qed

text \<open>
  Claim C5. In the text of every leaf the marks other than the link wrap the literal text
  first, one after the other in the order of the mark list, so that the first mark is the
  innermost; the link mark, when there is one, wraps the result last as
  \<open>[formatted](href)\<close>, and a leaf without a link mark is the formatted text itself. A
  leaf with a strong and a link mark, in either order, serializes as \<open>[**text**](href)\<close>
  and not as \<open>**[text](href)**\<close>, also as the only content of a document.
\<close>

theorem link_mark_outermost:
  "(find (\<lambda>m. mark_type m = ''link'') ms = Some l \<longrightarrow>
      textToMarkdown t ms
        = str ''['' @ foldl applyMark t (filter (\<lambda>m. mark_type m \<noteq> ''link'') ms)
            @ str '']('' @ mark_href l @ str '')'')
   \<and> (find (\<lambda>m. mark_type m = ''link'') ms = None \<longrightarrow>
        textToMarkdown t ms = foldl applyMark t ms)
   \<and> foldl applyMark t (ms @ [Mark ''strong'' x]) = str ''**'' @ foldl applyMark t ms @ str ''**''
   \<and> foldl applyMark t (ms @ [Mark ''em'' x]) = str ''*'' @ foldl applyMark t ms @ str ''*''
   \<and> foldl applyMark t (ms @ [Mark ''code'' x]) = str ''`'' @ foldl applyMark t ms @ str ''`''
   \<and> foldl applyMark t [] = t
   \<and> textToMarkdown t [] = t
   \<and> textToMarkdown t [Mark ''strong'' x] = str ''**'' @ t @ str ''**''
   \<and> textToMarkdown t [Mark ''em'' x] = str ''*'' @ t @ str ''*''
   \<and> textToMarkdown t [Mark ''code'' x] = str ''`'' @ t @ str ''`''
   \<and> textToMarkdown t [Mark ''strong'' x, Mark ''em'' y] = str ''***'' @ t @ str ''***''
   \<and> textToMarkdown t [Mark ''em'' x, Mark ''code'' y] = str ''`*'' @ t @ str ''*`''
   \<and> textToMarkdown t [Mark ''code'' x, Mark ''em'' y] = str ''*`'' @ t @ str ''`*''
   \<and> textToMarkdown t [Mark ''link'' h] = str ''['' @ t @ str '']('' @ h @ str '')''
   \<and> textToMarkdown t [Mark ''strong'' x, Mark ''link'' h] = str ''[**'' @ t @ str ''**]('' @ h @ str '')''
   \<and> textToMarkdown t [Mark ''link'' h, Mark ''strong'' x] = str ''[**'' @ t @ str ''**]('' @ h @ str '')''
   \<and> textToMarkdown t [Mark ''strong'' x, Mark ''link'' h] \<noteq> str ''**['' @ t @ str '']('' @ h @ str '')**''
   \<and> textToMarkdown t [Mark ''link'' h, Mark ''strong'' x] \<noteq> str ''**['' @ t @ str '']('' @ h @ str '')**''
   \<and> serializeToMarkdown (Node ''doc'' NoAttrs
         [Node ''paragraph'' NoAttrs [Text t [Mark ''strong'' x, Mark ''link'' h]]])
       = str ''[**'' @ t @ str ''**]('' @ h @ str '')''
   \<and> serializeToMarkdown (Node ''doc'' NoAttrs
         [Node ''paragraph'' NoAttrs [Text t [Mark ''strong'' x]]])
       = str ''**'' @ t @ str ''**''"
proof -
  have none: "find (\<lambda>m. mark_type m = ''link'') ms = None \<Longrightarrow> textToMarkdown t ms = foldl applyMark t ms"
    by (rule textToMarkdown_no_link) (simp add: find_None_iff)
  show ?thesis
    using none
    by (simp add: textToMarkdown_def applyMark_def serialize_is_join nodeMarkdown_def)
qed

theorem link_mark_outermost_witness:
  "find (\<lambda>m. mark_type m = ''link'') [Mark ''em'' [], Mark ''link'' (str ''u''), Mark ''code'' []]
     = Some (Mark ''link'' (str ''u''))
   \<and> textToMarkdown (str ''t'') [Mark ''em'' [], Mark ''link'' (str ''u''), Mark ''code'' []] = str ''[`*t*`](u)''
   \<and> find (\<lambda>m. mark_type m = ''link'') [Mark ''strong'' [], Mark ''em'' [], Mark ''code'' []] = None
   \<and> textToMarkdown (str ''t'') [Mark ''strong'' [], Mark ''em'' [], Mark ''code'' []] = str ''`***t***`''"
  using link_mark_outermost [of "[Mark ''em'' [], Mark ''link'' (str ''u''), Mark ''code'' []]"
      "Mark ''link'' (str ''u'')" "str ''t''"]
    link_mark_outermost [of "[Mark ''strong'' [], Mark ''em'' [], Mark ''code'' []]" _ "str ''t''"]
  by (simp add: applyMark_def)

lemma listItems_skip:
  "trim (itemText cs) = [] \<Longrightarrow>
   listItems (pre @ Node ''list_item'' a cs # post) marker n = listItems (pre @ post) marker n"
proof (induction pre arbitrary: n)
  case Nil
  then show ?case by simp
next
  case (Cons p pre)
  show ?case
  proof (cases p)
    case (Text t ms)
    then show ?thesis using Cons by simp
  next
    case (Node ty b ds)
    then show ?thesis using Cons by simp
  qed
qed

lemma taskItems_skip:
  "trim (taskItemText cs) = [] \<Longrightarrow>
   taskItems (pre @ Node ''task_list_item'' a cs # post) = taskItems (pre @ post)"
proof (induction pre)
  case Nil
  then show ?case by simp
next
  case (Cons p pre)
  then show ?case by (cases p) simp_all
qed

lemma listItems_all_empty:
  "list_all emptyListItem items \<Longrightarrow> listItems items marker n = []"
  by (induction items) (auto simp: emptyListItem_def split: node.splits)

lemma taskItems_all_empty:
  "list_all emptyTaskItem items \<Longrightarrow> taskItems items = []"
  by (induction items) (auto simp: emptyTaskItem_def split: node.splits)

text \<open>
  Claim C10. An item whose collected text is empty or white space only (the white space
  of \<open>trim\<close>, the spaces outside ASCII included) contributes nothing to the lines of its
  list: the output is the one of the list without the item, with the same numbering. A
  bullet, ordered or task list all of whose items are such serializes to the empty
  string. An item whose only text is a no-break space, an em space, a byte order mark and
  a tab is such an item; an item with a zero width space (U+200B, no white space) is not.
\<close>

theorem empty_items_omitted:
  "(emptyListItem item \<longrightarrow>
      listItems (pre @ item # post) marker n = listItems (pre @ post) marker n)
   \<and> (emptyTaskItem titem \<longrightarrow> taskItems (tpre @ titem # tpost) = taskItems (tpre @ tpost))
   \<and> (list_all emptyListItem items \<longrightarrow>
        nodeMarkdown (Node ''bullet_list'' a items) = []
        \<and> nodeMarkdown (Node ''ordered_list'' a items) = [])
   \<and> (list_all emptyTaskItem titems \<longrightarrow> nodeMarkdown (Node ''task_list'' ta titems) = [])
   \<and> emptyListItem (Node ''list_item'' b [Node ''paragraph'' c [Text [0xA0, 0x2003, 0xFEFF, 0x09] []]])
   \<and> emptyTaskItem (Node ''task_list_item'' b [Node ''paragraph'' c [Text [0xA0, 0x2003, 0xFEFF, 0x09] []]])
   \<and> \<not> emptyListItem (Node ''list_item'' b [Node ''paragraph'' c [Text [0x200B] []]])
   \<and> nodeMarkdown (Node ''bullet_list'' a
         [Node ''list_item'' b [], Node ''list_item'' b [Node ''paragraph'' c [Text [0xA0] []]]]) = []"
proof -
  have e: "emptyListItem (Node ''list_item'' b [Node ''paragraph'' c [Text [0xA0, 0x2003, 0xFEFF, 0x09] []]])"
    "emptyTaskItem (Node ''task_list_item'' b [Node ''paragraph'' c [Text [0xA0, 0x2003, 0xFEFF, 0x09] []]])"
    "\<not> emptyListItem (Node ''list_item'' b [Node ''paragraph'' c [Text [0x200B] []]])"
    by (simp_all add: emptyListItem_def emptyTaskItem_def trim_def trimEnd_def trimStart_def is_ws_def
          textToMarkdown_def)
  have l: "nodeMarkdown (Node ''bullet_list'' a
         [Node ''list_item'' b [], Node ''list_item'' b [Node ''paragraph'' c [Text [0xA0] []]]]) = []"
    by (simp add: nodeMarkdown_def trim_def trimEnd_def trimStart_def is_ws_def textToMarkdown_def)
  have g: "(emptyListItem item \<longrightarrow>
      listItems (pre @ item # post) marker n = listItems (pre @ post) marker n)
   \<and> (emptyTaskItem titem \<longrightarrow> taskItems (tpre @ titem # tpost) = taskItems (tpre @ tpost))
   \<and> (list_all emptyListItem items \<longrightarrow>
        nodeMarkdown (Node ''bullet_list'' a items) = []
        \<and> nodeMarkdown (Node ''ordered_list'' a items) = [])
   \<and> (list_all emptyTaskItem titems \<longrightarrow> nodeMarkdown (Node ''task_list'' ta titems) = [])"
    by (auto simp: emptyListItem_def emptyTaskItem_def listItems_skip taskItems_skip
        listItems_all_empty taskItems_all_empty nodeMarkdown_def serializeTaskList_def trimEnd_def
        split: node.splits)
  from g e l show ?thesis by blast
qed

theorem empty_items_omitted_witness:
  "emptyListItem (Node ''list_item'' NoAttrs [Node ''paragraph'' NoAttrs [Text [0x20, 0xA0] []]])
   \<and> emptyTaskItem (Node ''task_list_item'' (TaskItemAttrs True) [Node ''paragraph'' NoAttrs []])
   \<and> listItems ([Node ''list_item'' NoAttrs [Node ''paragraph'' NoAttrs [Text (str ''a'') []]]]
         @ Node ''list_item'' NoAttrs [Node ''paragraph'' NoAttrs [Text [0x20, 0xA0] []]]
         # [Node ''list_item'' NoAttrs [Node ''paragraph'' NoAttrs [Text (str ''b'') []]]]) (str ''1.'') 1
       = str ''1. a\<newline>2. b\<newline>''
   \<and> nodeMarkdown (Node ''bullet_list'' NoAttrs
         [Node ''list_item'' NoAttrs [Node ''paragraph'' NoAttrs [Text [0x20, 0xA0] []]]]) = []
   \<and> nodeMarkdown (Node ''task_list'' NoAttrs
         [Node ''task_list_item'' (TaskItemAttrs True) [Node ''paragraph'' NoAttrs []]]) = []"
proof -
  have e1: "emptyListItem (Node ''list_item'' NoAttrs [Node ''paragraph'' NoAttrs [Text [0x20, 0xA0] []]])"
    by (simp add: emptyListItem_def trim_def trimEnd_def trimStart_def is_ws_def textToMarkdown_def)
  have e2: "emptyTaskItem (Node ''task_list_item'' (TaskItemAttrs True) [Node ''paragraph'' NoAttrs []])"
    by (simp add: emptyTaskItem_def trim_def trimEnd_def trimStart_def)
  have l1: "list_all emptyListItem
      [Node ''list_item'' NoAttrs [Node ''paragraph'' NoAttrs [Text [0x20, 0xA0] []]]]"
    using e1 by simp
  have l2: "list_all emptyTaskItem
      [Node ''task_list_item'' (TaskItemAttrs True) [Node ''paragraph'' NoAttrs []]]"
    using e2 by simp
  have r: "listItems ([Node ''list_item'' NoAttrs [Node ''paragraph'' NoAttrs [Text (str ''a'') []]]]
         @ [Node ''list_item'' NoAttrs [Node ''paragraph'' NoAttrs [Text (str ''b'') []]]]) (str ''1.'') 1
       = str ''1. a\<newline>2. b\<newline>''"
    by (simp add: trim_def trimEnd_def trimStart_def is_ws_def textToMarkdown_def
          currentMarker_def int_to_string_def digit_char_def)
  note t = empty_items_omitted [where
        item = "Node ''list_item'' NoAttrs [Node ''paragraph'' NoAttrs [Text [0x20, 0xA0] []]]"
        and pre = "[Node ''list_item'' NoAttrs [Node ''paragraph'' NoAttrs [Text (str ''a'') []]]]"
        and post = "[Node ''list_item'' NoAttrs [Node ''paragraph'' NoAttrs [Text (str ''b'') []]]]"
        and marker = "str ''1.''" and n = 1
        and titem = "Node ''task_list_item'' (TaskItemAttrs True) [Node ''paragraph'' NoAttrs []]"
        and tpre = "[]" and tpost = "[]"
        and items = "[Node ''list_item'' NoAttrs [Node ''paragraph'' NoAttrs [Text [0x20, 0xA0] []]]]"
        and a = NoAttrs
        and titems = "[Node ''task_list_item'' (TaskItemAttrs True) [Node ''paragraph'' NoAttrs []]]"
        and ta = NoAttrs]
  have a1: "listItems ([Node ''list_item'' NoAttrs [Node ''paragraph'' NoAttrs [Text (str ''a'') []]]]
         @ Node ''list_item'' NoAttrs [Node ''paragraph'' NoAttrs [Text [0x20, 0xA0] []]]
         # [Node ''list_item'' NoAttrs [Node ''paragraph'' NoAttrs [Text (str ''b'') []]]]) (str ''1.'') 1
       = str ''1. a\<newline>2. b\<newline>''"
    using t [THEN conjunct1, rule_format, OF e1] r by simp
  have a2: "nodeMarkdown (Node ''bullet_list'' NoAttrs
         [Node ''list_item'' NoAttrs [Node ''paragraph'' NoAttrs [Text [0x20, 0xA0] []]]]) = []"
    using t [THEN conjunct2, THEN conjunct2, THEN conjunct1, rule_format, OF l1] by simp
  have a3: "nodeMarkdown (Node ''task_list'' NoAttrs
         [Node ''task_list_item'' (TaskItemAttrs True) [Node ''paragraph'' NoAttrs []]]) = []"
    using t [THEN conjunct2, THEN conjunct2, THEN conjunct2, THEN conjunct1, rule_format, OF l2] .
  from e1 e2 a1 a2 a3 show ?thesis by blast
qed

text \<open>
  Claim C7. The numbering of an ordered list starts at the list's \<open>order\<close> attribute only
  for a list at the top level of the document. For an ordered list inside a list item the
  serializer calls itself without the start number, and the items are numbered from 1: the
  list with \<open>order = 5\<close> below is numbered 5, 6 at the top level and 1, 2 when nested.
\<close>

theorem nested_ordered_list_restarts_at_1:
  "serializeToMarkdown (Node ''doc'' NoAttrs
     [Node ''ordered_list'' (OrderedListAttrs 5)
        [Node ''list_item'' NoAttrs [Node ''paragraph'' NoAttrs [Text (str ''b'') []]],
         Node ''list_item'' NoAttrs [Node ''paragraph'' NoAttrs [Text (str ''c'') []]]]])
     = str ''5. b\<newline>6. c''
   \<and> serializeToMarkdown (Node ''doc'' NoAttrs
     [Node ''bullet_list'' NoAttrs
        [Node ''list_item'' NoAttrs
           [Node ''paragraph'' NoAttrs [Text (str ''a'') []],
            Node ''ordered_list'' (OrderedListAttrs 5)
              [Node ''list_item'' NoAttrs [Node ''paragraph'' NoAttrs [Text (str ''b'') []]],
               Node ''list_item'' NoAttrs [Node ''paragraph'' NoAttrs [Text (str ''c'') []]]]]]])
     = str ''- a\<newline>  1. b\<newline>  2. c''"
  by (simp add: serialize_is_join nodeMarkdown_def trim_def trimEnd_def trimStart_def is_ws_def
        textToMarkdown_def currentMarker_def int_to_string_def digit_char_def indentLines_def)

subsection \<open>The line scan\<close>

text \<open>
  The line scan is the table of rules: the markup of a line is the one of the first rule
  that matches the trimmed line, in the order blank line, heading, code fence, unchecked
  task, checked task, ordered item, unordered item, block quote, horizontal rule, and a
  line that no rule matches is a paragraph of the inline markup of the whole line,
  untrimmed.
\<close>

lemma lineMarkup_first_match: "lineMarkup line rest = classified_markup line rest"
  by (simp add: lineMarkup_def classified_markup_def rule_order_def Let_def
        split: option.splits)

text \<open>
  Claim C4. The rules (1) to (9) decide the node of a line in the order stated, as the
  documents below show, each line a node: a blank line is an empty paragraph; one to six
  \<open>#\<close> and white space make a heading, also before a list marker; a fence takes the
  lines up to the closing fence or the end of the input as they are, markers and spaces
  included; a task marker comes before the list marker, \<open>[X]\<close> is checked and \<open>[y]\<close>
  is no task; digits with a dot and \<open>-\<close>, \<open>*\<close>, \<open>+\<close> need white space after them; a
  list marker comes before a quote marker; three or more \<open>-\<close> alone are a rule. Rule
  (10) does not hold: the markup of the line \<open>  two  spaces \<close> still has the exact text,
  but the paragraph of the tree is \<open>two spaces\<close>, and a tab inside a line becomes a
  space; the reader of the markup is called without \<open>preserveWhitespace\<close>.
\<close>

theorem paragraph_white_space_collapsed:
  "linesMarkup (split_nl (str ''  two  spaces '')) = str ''<p>  two  spaces </p>''
   \<and> parseMarkdown (str ''  two  spaces '')
       = Some (Node ''doc'' NoAttrs [Node ''paragraph'' NoAttrs [Text (str ''two spaces'') []]])
   \<and> parseMarkdown (str ''a'' @ [0x09] @ str ''b'')
       = Some (Node ''doc'' NoAttrs [Node ''paragraph'' NoAttrs [Text (str ''a b'') []]])
   \<and> parseMarkdown (str ''a\<newline>\<newline>  \<newline>b'')
       = Some (Node ''doc'' NoAttrs
           [Node ''paragraph'' NoAttrs [Text (str ''a'') []], Node ''paragraph'' NoAttrs [],
            Node ''paragraph'' NoAttrs [], Node ''paragraph'' NoAttrs [Text (str ''b'') []]])
   \<and> parseMarkdown (str ''## T\<newline>#x\<newline>####### y\<newline># - z'')
       = Some (Node ''doc'' NoAttrs
           [Node ''heading'' (HeadingAttrs 2) [Text (str ''T'') []],
            Node ''paragraph'' NoAttrs [Text (str ''#x'') []],
            Node ''paragraph'' NoAttrs [Text (str ''####### y'') []],
            Node ''heading'' (HeadingAttrs 1) [Text (str ''- z'') []]])
   \<and> parseMarkdown (str ''```js\<newline>  x  y \<newline>- z\<newline>  ```\<newline>after\<newline>```\<newline># open'')
       = Some (Node ''doc'' NoAttrs
           [Node ''code_block'' (CodeBlockAttrs (Some (str ''js''))) [Text (str ''  x  y \<newline>- z'') []],
            Node ''paragraph'' NoAttrs [Text (str ''after'') []],
            Node ''code_block'' (CodeBlockAttrs None) [Text (str ''# open'') []]])
   \<and> parseMarkdown (str ''- [ ] a\<newline>- [X] b\<newline>-[]  c\<newline>- [y] d'')
       = Some (Node ''doc'' NoAttrs
           [Node ''task_list'' NoAttrs
              [Node ''task_list_item'' (TaskItemAttrs False) [Node ''paragraph'' NoAttrs [Text (str ''a'') []]]],
            Node ''task_list'' NoAttrs
              [Node ''task_list_item'' (TaskItemAttrs True) [Node ''paragraph'' NoAttrs [Text (str ''b'') []]]],
            Node ''task_list'' NoAttrs
              [Node ''task_list_item'' (TaskItemAttrs False) [Node ''paragraph'' NoAttrs [Text (str ''c'') []]]],
            Node ''bullet_list'' NoAttrs
              [Node ''list_item'' NoAttrs [Node ''paragraph'' NoAttrs [Text (str ''[y] d'') []]]]])
   \<and> parseMarkdown (str ''1. a\<newline>12.  b\<newline>1.c\<newline>* d\<newline>+ e\<newline>- f\<newline>-g'')
       = Some (Node ''doc'' NoAttrs
           [Node ''ordered_list'' (OrderedListAttrs 1)
              [Node ''list_item'' NoAttrs [Node ''paragraph'' NoAttrs [Text (str ''a'') []]]],
            Node ''ordered_list'' (OrderedListAttrs 1)
              [Node ''list_item'' NoAttrs [Node ''paragraph'' NoAttrs [Text (str ''b'') []]]],
            Node ''paragraph'' NoAttrs [Text (str ''1.c'') []],
            Node ''bullet_list'' NoAttrs
              [Node ''list_item'' NoAttrs [Node ''paragraph'' NoAttrs [Text (str ''d'') []]]],
            Node ''bullet_list'' NoAttrs
              [Node ''list_item'' NoAttrs [Node ''paragraph'' NoAttrs [Text (str ''e'') []]]],
            Node ''bullet_list'' NoAttrs
              [Node ''list_item'' NoAttrs [Node ''paragraph'' NoAttrs [Text (str ''f'') []]]],
            Node ''paragraph'' NoAttrs [Text (str ''-g'') []]])
   \<and> parseMarkdown (str ''> q\<newline>>r\<newline>- > s\<newline>---\<newline>-----\<newline>--\<newline>--- x\<newline> ---  '')
       = Some (Node ''doc'' NoAttrs
           [Node ''blockquote'' NoAttrs [Node ''paragraph'' NoAttrs [Text (str ''q'') []]],
            Node ''paragraph'' NoAttrs [Text (str ''>r'') []],
            Node ''bullet_list'' NoAttrs
              [Node ''list_item'' NoAttrs [Node ''paragraph'' NoAttrs [Text (str ''> s'') []]]],
            Node ''horizontal_rule'' NoAttrs [], Node ''horizontal_rule'' NoAttrs [],
            Node ''paragraph'' NoAttrs [Text (str ''--'') []],
            Node ''paragraph'' NoAttrs [Text (str ''--- x'') []],
            Node ''horizontal_rule'' NoAttrs []])"
proof -
  have 1: "linesMarkup (split_nl (str ''  two  spaces '')) = str ''<p>  two  spaces </p>''"
    by code_simp
  have 2: "parseMarkdown (str ''  two  spaces '')
       = Some (Node ''doc'' NoAttrs [Node ''paragraph'' NoAttrs [Text (str ''two spaces'') []]])"
    by code_simp
  have 3: "parseMarkdown (str ''a'' @ [0x09] @ str ''b'')
       = Some (Node ''doc'' NoAttrs [Node ''paragraph'' NoAttrs [Text (str ''a b'') []]])"
    by code_simp
  have 4: "parseMarkdown (str ''a\<newline>\<newline>  \<newline>b'')
       = Some (Node ''doc'' NoAttrs
           [Node ''paragraph'' NoAttrs [Text (str ''a'') []], Node ''paragraph'' NoAttrs [],
            Node ''paragraph'' NoAttrs [], Node ''paragraph'' NoAttrs [Text (str ''b'') []]])"
    by code_simp
  have 5: "parseMarkdown (str ''## T\<newline>#x\<newline>####### y\<newline># - z'')
       = Some (Node ''doc'' NoAttrs
           [Node ''heading'' (HeadingAttrs 2) [Text (str ''T'') []],
            Node ''paragraph'' NoAttrs [Text (str ''#x'') []],
            Node ''paragraph'' NoAttrs [Text (str ''####### y'') []],
            Node ''heading'' (HeadingAttrs 1) [Text (str ''- z'') []]])"
    by code_simp
  have 6: "parseMarkdown (str ''```js\<newline>  x  y \<newline>- z\<newline>  ```\<newline>after\<newline>```\<newline># open'')
       = Some (Node ''doc'' NoAttrs
           [Node ''code_block'' (CodeBlockAttrs (Some (str ''js''))) [Text (str ''  x  y \<newline>- z'') []],
            Node ''paragraph'' NoAttrs [Text (str ''after'') []],
            Node ''code_block'' (CodeBlockAttrs None) [Text (str ''# open'') []]])"
    by code_simp
  have 7: "parseMarkdown (str ''- [ ] a\<newline>- [X] b\<newline>-[]  c\<newline>- [y] d'')
       = Some (Node ''doc'' NoAttrs
           [Node ''task_list'' NoAttrs
              [Node ''task_list_item'' (TaskItemAttrs False) [Node ''paragraph'' NoAttrs [Text (str ''a'') []]]],
            Node ''task_list'' NoAttrs
              [Node ''task_list_item'' (TaskItemAttrs True) [Node ''paragraph'' NoAttrs [Text (str ''b'') []]]],
            Node ''task_list'' NoAttrs
              [Node ''task_list_item'' (TaskItemAttrs False) [Node ''paragraph'' NoAttrs [Text (str ''c'') []]]],
            Node ''bullet_list'' NoAttrs
              [Node ''list_item'' NoAttrs [Node ''paragraph'' NoAttrs [Text (str ''[y] d'') []]]]])"
    by code_simp
  have 8: "parseMarkdown (str ''1. a\<newline>12.  b\<newline>1.c\<newline>* d\<newline>+ e\<newline>- f\<newline>-g'')
       = Some (Node ''doc'' NoAttrs
           [Node ''ordered_list'' (OrderedListAttrs 1)
              [Node ''list_item'' NoAttrs [Node ''paragraph'' NoAttrs [Text (str ''a'') []]]],
            Node ''ordered_list'' (OrderedListAttrs 1)
              [Node ''list_item'' NoAttrs [Node ''paragraph'' NoAttrs [Text (str ''b'') []]]],
            Node ''paragraph'' NoAttrs [Text (str ''1.c'') []],
            Node ''bullet_list'' NoAttrs
              [Node ''list_item'' NoAttrs [Node ''paragraph'' NoAttrs [Text (str ''d'') []]]],
            Node ''bullet_list'' NoAttrs
              [Node ''list_item'' NoAttrs [Node ''paragraph'' NoAttrs [Text (str ''e'') []]]],
            Node ''bullet_list'' NoAttrs
              [Node ''list_item'' NoAttrs [Node ''paragraph'' NoAttrs [Text (str ''f'') []]]],
            Node ''paragraph'' NoAttrs [Text (str ''-g'') []]])"
    by code_simp
  have 9: "parseMarkdown (str ''> q\<newline>>r\<newline>- > s\<newline>---\<newline>-----\<newline>--\<newline>--- x\<newline> ---  '')
       = Some (Node ''doc'' NoAttrs
           [Node ''blockquote'' NoAttrs [Node ''paragraph'' NoAttrs [Text (str ''q'') []]],
            Node ''paragraph'' NoAttrs [Text (str ''>r'') []],
            Node ''bullet_list'' NoAttrs
              [Node ''list_item'' NoAttrs [Node ''paragraph'' NoAttrs [Text (str ''> s'') []]]],
            Node ''horizontal_rule'' NoAttrs [], Node ''horizontal_rule'' NoAttrs [],
            Node ''paragraph'' NoAttrs [Text (str ''--'') []],
            Node ''paragraph'' NoAttrs [Text (str ''--- x'') []],
            Node ''horizontal_rule'' NoAttrs []])"
    by code_simp
  from 1 2 3 4 5 6 7 8 9 show ?thesis by blast
qed

text \<open>
  Claim C2. \<open>parseMarkdown\<close> returns a tree for every string, whatever the library
  steps do with the markup: the tree they return, whole, or the filled document of the
  schema when they raise (and for the empty string).
\<close>

theorem parse_never_raises:
  "(parseMarkdown_with fromMarkup markdown = createAndFill
      \<or> parseMarkdown_try fromMarkup markdown = Inr (parseMarkdown_with fromMarkup markdown))
   \<and> (parseMarkdown_try fromMarkup markdown = Inl e \<longrightarrow>
        parseMarkdown_with fromMarkup markdown = createAndFill)
   \<and> (markdown \<noteq> [] \<longrightarrow> fromMarkup (linesMarkup (split_nl markdown)) = Inl e \<longrightarrow>
        parseMarkdown_with fromMarkup markdown = createAndFill)
   \<and> (markdown \<noteq> [] \<longrightarrow> fromMarkup (linesMarkup (split_nl markdown)) = Inr d \<longrightarrow>
        parseMarkdown_with fromMarkup markdown = d)"
  by (auto simp: parseMarkdown_with_def parseMarkdown_try_def split: sum.splits)

theorem parse_never_raises_witness:
  "parseMarkdown_try (\<lambda>html. Inl Failure) (str ''# a'') = Inl Failure
   \<and> parseMarkdown_with (\<lambda>html. Inl Failure) (str ''# a'') = createAndFill
   \<and> parseMarkdown_with (\<lambda>html. Inr (Node ''doc'' NoAttrs [])) (str ''# a'') = Node ''doc'' NoAttrs []"
  using parse_never_raises [of "\<lambda>html. Inl Failure" "str ''# a''" Failure]
    parse_never_raises [of "\<lambda>html. Inr (Node ''doc'' NoAttrs [])" "str ''# a''" Failure "Node ''doc'' NoAttrs []"]
  by (simp add: parseMarkdown_try_def)


text \<open>
  The tree of the fragment read here is the result of \<open>parseMarkdown\<close> for every
  library step that agrees with the reading where there is one.
\<close>

lemma parseMarkdown_in_fragment:
  assumes "\<And>html t. materialize html = Some t \<Longrightarrow> fromMarkup html = Inr t"
    and "parseMarkdown markdown = Some d"
  shows "parseMarkdown_with fromMarkup markdown = d"
  using assms
  by (auto simp: parseMarkdown_def parseMarkdown_with_def parseMarkdown_try_def split: if_splits)

subsection \<open>The sanitizer and the tree\<close>

lemma all_elems_list_append [simp]:
  "all_elems_list P (xs @ ys) = (all_elems_list P xs \<and> all_elems_list P ys)"
  by (induction xs) auto





















text \<open>The tree is made of the types of the schema.\<close>

lemma schema_node_list_append [simp]:
  "schema_node_list (xs @ ys) = (schema_node_list xs \<and> schema_node_list ys)"
  by (induction xs) auto

lemma schema_node_list_rev [simp]: "schema_node_list (rev xs) = schema_node_list xs"
  by (induction xs) auto



















end
